theory Spec2Isabelle
  imports Complex_Main "HOL-Library.Signed_Division"
begin

section \<open>Data model\<close>

text \<open>
  Go strings and byte slices are sequences of bytes; \<open>len\<close> counts bytes. Both are
  modelled as \<^typ>\<open>string\<close>. Go's \<open>int\<close> is modelled as \<^typ>\<open>int\<close>: the only
  arithmetic on it in the code below adds string lengths, which stay far below \<open>2^63\<close>.
\<close>

type_synonym bytes = string

text \<open>
  A \<open>float32\<close> or \<open>float64\<close> value is a NaN, an infinity or a finite rational. Only
  comparison is needed on request fields; it is false as soon as one side is NaN.
\<close>

datatype float = NaN | NegInf | Finite rat | PosInf

fun float_less :: "float \<Rightarrow> float \<Rightarrow> bool" where
  "float_less NaN _ = False"
| "float_less _ NaN = False"
| "float_less _ NegInf = False"
| "float_less NegInf _ = True"
| "float_less PosInf _ = False"
| "float_less (Finite a) PosInf = True"
| "float_less (Finite a) (Finite b) = (a < b)"

text \<open>The values of Go's \<open>interface{}\<close> that occur in a parameter map.\<close>

datatype any =
    ANil
  | ABool bool
  | AInt int
  | AFloat float
  | AString string
  | AList "any list"
  | AMap "(string \<times> any) list"

subsection \<open>internal/model/ai.go\<close>

record AIRequest =
  ID :: string
  Model :: string
  Prompt :: string
  MaxTokens :: int
  Temperature :: float
  TopP :: float
  Parameters :: "string \<rightharpoonup> any"
  CreatedAt :: int

record Choice =
  Index :: int
  Text :: string
  FinishReason :: string
  LogProbs :: "float option"

record Usage =
  PromptTokens :: int
  CompletionTokens :: int
  TotalTokens :: int

record AIResponse =
  AIResponse_ID :: string
  AIResponse_Model :: string
  Choices :: "Choice list"
  Usage :: Usage
  GeneratedAt :: int
  ProcessingMs :: int

text \<open>
  The scores of a sentiment result are copied from a decoded JSON document, and
  \<open>encoding/json\<close> decodes a number to a finite \<open>float64\<close> or fails: they are rationals.
\<close>

record SentimentResponse =
  SentimentResponse_Text :: string
  Sentiment :: string
  SentimentResponse_Score :: rat
  Confidence :: rat

record SummaryResponse =
  OriginalText :: string
  Summary :: string
  Compression :: float

record ErrorResponse =
  Code :: int
  Message :: string
  Type :: string
  Details :: "any option"

definition Validate :: "AIRequest \<Rightarrow> ErrorResponse option" where
  "Validate r =
     (if Prompt r = [] then
        Some \<lparr>Code = 400, Message = ''prompt is required'', Type = ''validation_error'',
              Details = None\<rparr>
      else if Model r = [] then
        Some \<lparr>Code = 400, Message = ''model is required'', Type = ''validation_error'',
              Details = None\<rparr>
      else if MaxTokens r < 0 then
        Some \<lparr>Code = 400, Message = ''max_tokens must be positive'',
              Type = ''validation_error'', Details = None\<rparr>
      else if float_less (Temperature r) (Finite 0) \<or> float_less (Finite 1) (Temperature r) then
        Some \<lparr>Code = 400, Message = ''temperature must be between 0 and 1'',
              Type = ''validation_error'', Details = None\<rparr>
      else None)"

subsection \<open>internal/config/config.go\<close>

record HuggingFaceConfig =
  APIKey :: string
  BaseURL :: string
  DefaultModel :: string
  Timeout :: int
  RetryAttempts :: int
  RetryDelay :: int
  HuggingFaceConfig_MaxTokens :: int
  HuggingFaceConfig_Temperature :: float
  RateLimitRPM :: int
  RateLimitTPM :: int

subsection \<open>The inference client: wire types\<close>

record HuggingFaceRequest =
  Inputs :: string
  HuggingFaceRequest_Parameters :: "string \<rightharpoonup> any"
  Options :: "string \<rightharpoonup> any"

record HuggingFaceResponse =
  GeneratedText :: string
  Score :: rat
  Label :: string
  SummaryText :: string

record HuggingFaceError =
  Error :: string
  HuggingFaceError_Message :: string

text \<open>
  The errors the client returns. \<open>Wrap msg cause\<close> is \<open>fmt.Errorf(msg + ": %w", cause)\<close>,
  \<open>Errorf msg\<close> an error with a fixed message, \<open>Ctx e\<close> the value of \<open>ctx.Err()\<close>
  returned as it is, \<open>APIError\<close> and \<open>APIErrorBody\<close> the two \<open>"API error (%d): ..."\<close>
  formats with their arguments, and \<open>Validation\<close> a \<open>*model.ErrorResponse\<close>.
\<close>

datatype ctx_error = Canceled | DeadlineExceeded

datatype error =
    Validation ErrorResponse
  | Ctx ctx_error
  | Errorf string
  | Wrap string string
  | APIError int string string
  | APIErrorBody int bytes

subsection \<open>The world outside the client\<close>

record http_request =
  Method :: string
  URL :: string
  Header :: "(string \<times> string) list"
  Body :: bytes

text \<open>
  What \<open>httpClient.Do\<close> followed by \<open>io.ReadAll\<close> gives: the call fails, or a response
  with a status code arrives whose body is read in full (\<open>Inr\<close>) or fails to be read
  (\<open>Inl\<close>).
\<close>

datatype do_result = DoFailed string | Response int "string + bytes"

text \<open>
  Everything the client takes from outside is a field of the world:
  \<^item> \<open>ctx_done k\<close>: the outcome of the \<open>select\<close> before attempt \<open>k\<close>, \<open>Some e\<close> when
    \<open>ctx.Done()\<close> is taken (and \<open>ctx.Err()\<close> is \<open>e\<close>), \<open>None\<close> when the timer is;
  \<^item> \<open>Do k r\<close>: what the upstream answers to request \<open>r\<close> at attempt \<open>k\<close>;
  \<^item> \<open>Marshal\<close>, \<open>Unmarshal_responses\<close>, \<open>Unmarshal_nested\<close>, \<open>Unmarshal_error\<close>:
    \<open>encoding/json\<close> at the four types it is used at (\<open>Inl\<close>, \<open>None\<close>: it fails);
  \<^item> \<open>url_error\<close>: the error of \<open>http.NewRequestWithContext\<close> on a URL, if any;
  \<^item> \<open>now k\<close>: the \<open>k\<close>-th reading of the clock in a call, in nanoseconds;
  \<^item> \<open>round64\<close>: rounding of a rational to the nearest \<open>float64\<close>.
\<close>

record world =
  ctx_done :: "int \<Rightarrow> ctx_error option"
  Do :: "int \<Rightarrow> http_request \<Rightarrow> do_result"
  Marshal :: "HuggingFaceRequest \<Rightarrow> string + bytes"
  Unmarshal_responses :: "bytes \<Rightarrow> string + HuggingFaceResponse list"
  Unmarshal_nested :: "bytes \<Rightarrow> string + HuggingFaceResponse list list"
  Unmarshal_error :: "bytes \<Rightarrow> HuggingFaceError option"
  url_error :: "string \<Rightarrow> string option"
  now :: "nat \<Rightarrow> int"
  round64 :: "rat \<Rightarrow> rat"

text \<open>What a call does, in order: log lines, waits and requests sent.\<close>

datatype event =
    LogInfo string
  | LogError string
  | TimerElapsed int
  | ContextDone ctx_error
  | HTTPDo int http_request

definition emit :: "event list \<Rightarrow> 'a \<times> event list \<Rightarrow> 'a \<times> event list" where
  "emit es r = (fst r, es @ snd r)"

section \<open>makeRequest\<close>

definition NewRequestWithContext ::
  "world \<Rightarrow> string \<Rightarrow> string \<Rightarrow> bytes \<Rightarrow> string + http_request" where
  "NewRequestWithContext w method url body =
     (case url_error w url of
        Some e \<Rightarrow> Inl e
      | None \<Rightarrow> Inr \<lparr>Method = method, URL = url, Header = [], Body = body\<rparr>)"

fun Header_Set :: "(string \<times> string) list \<Rightarrow> string \<Rightarrow> string \<Rightarrow> (string \<times> string) list" where
  "Header_Set [] k v = [(k, v)]"
| "Header_Set ((k', v') # h) k v =
     (if k' = k then (k, v) # h else (k', v') # Header_Set h k v)"

definition set_headers :: "HuggingFaceConfig \<Rightarrow> http_request \<Rightarrow> http_request" where
  "set_headers cfg httpReq =
     httpReq\<lparr>Header :=
       Header_Set
         (Header_Set
           (Header_Set (Header httpReq) ''Authorization'' (''Bearer '' @ APIKey cfg))
           ''Content-Type'' ''application/json'')
         ''User-Agent'' ''go-ai-huggingface/1.0''\<rparr>"

text \<open>
  The error built from a response that is not a 200 (lines 323 to 328): the upstream's
  error and message fields when the body decodes, the raw body otherwise.
\<close>

definition api_error :: "world \<Rightarrow> int \<Rightarrow> bytes \<Rightarrow> error" where
  "api_error w status body =
     (case Unmarshal_error w body of
        Some hfError \<Rightarrow> APIError status (Error hfError) (HuggingFaceError_Message hfError)
      | None \<Rightarrow> APIErrorBody status body)"

text \<open>
  One pass through the loop body after the request is sent: return the body, go on to
  the next attempt with \<open>lastErr\<close> set, or leave the loop with \<open>lastErr\<close> set.
\<close>

datatype attempt_step = Return bytes | Continue error | Break error

definition attempt_step_of :: "world \<Rightarrow> do_result \<Rightarrow> attempt_step" where
  "attempt_step_of w r =
     (case r of
        DoFailed e \<Rightarrow> Continue (Wrap ''HTTP request failed'' e)
      | Response status rd \<Rightarrow>
          (case rd of
             Inl e \<Rightarrow> Continue (Wrap ''failed to read response'' e)
           | Inr body \<Rightarrow>
               if status = 200 then Return body
               else if status \<ge> 400 \<and> status < 500 then Break (api_error w status body)
               else Continue (api_error w status body)))"

text \<open>
  \<open>return nil, lastErr\<close>: with no error recorded (the loop body never ran) the caller
  gets a nil body and a nil error.
\<close>

definition return_lastErr :: "error option \<Rightarrow> error + bytes" where
  "return_lastErr lastErr = (case lastErr of None \<Rightarrow> Inr [] | Some e \<Rightarrow> Inl e)"

text \<open>
  The retry loop (lines 282 to 336), entered with \<open>attempt = 0\<close> and no \<open>lastErr\<close>.
  From the second attempt on it first waits: the \<open>select\<close> returns \<open>ctx.Err()\<close> when
  the context is done, and goes on when the timer of \<open>RetryDelay\<close> fires. It then
  builds the request anew, sends it, and acts on the outcome.
\<close>

function retry_loop ::
  "HuggingFaceConfig \<Rightarrow> world \<Rightarrow> string \<Rightarrow> bytes \<Rightarrow> int \<Rightarrow> error option
     \<Rightarrow> (error + bytes) \<times> event list" where
  "retry_loop cfg w url requestBody attempt lastErr =
     (if attempt \<le> RetryAttempts cfg then
        (case (if attempt > 0 then ctx_done w attempt else None) of
           Some e \<Rightarrow> (Inl (Ctx e), [ContextDone e])
         | None \<Rightarrow>
             emit (if attempt > 0
                   then [TimerElapsed (RetryDelay cfg), LogInfo ''Retrying request'']
                   else [])
               (case NewRequestWithContext w ''POST'' url requestBody of
                  Inl e \<Rightarrow> (Inl (Wrap ''failed to create request'' e), [])
                | Inr httpReq \<Rightarrow>
                    emit [HTTPDo attempt (set_headers cfg httpReq)]
                      (case attempt_step_of w (Do w attempt (set_headers cfg httpReq)) of
                         Return body \<Rightarrow> (Inr body, [])
                       | Continue e \<Rightarrow>
                           retry_loop cfg w url requestBody (attempt + 1) (Some e)
                       | Break e \<Rightarrow> (return_lastErr (Some e), []))))
      else (return_lastErr lastErr, []))"
  by pat_completeness auto
termination
  by (relation "measure (\<lambda>(cfg, w, url, requestBody, attempt, lastErr).
        nat (RetryAttempts cfg + 1 - attempt))") auto

declare retry_loop.simps [simp del]

definition makeRequest ::
  "HuggingFaceConfig \<Rightarrow> world \<Rightarrow> string \<Rightarrow> HuggingFaceRequest
     \<Rightarrow> (error + bytes) \<times> event list" where
  "makeRequest cfg w modelName req =
     (case Marshal w req of
        Inl e \<Rightarrow> (Inl (Wrap ''failed to marshal request'' e), [])
      | Inr requestBody \<Rightarrow>
          (case NewRequestWithContext w ''POST'' (BaseURL cfg @ ''/models/'' @ modelName)
                  requestBody of
             Inl e \<Rightarrow> (Inl (Wrap ''failed to create request'' e), [])
           | Inr httpReq \<Rightarrow>
               retry_loop cfg w (BaseURL cfg @ ''/models/'' @ modelName) requestBody 0 None))"

section \<open>GenerateText\<close>

definition HasPrefix :: "string \<Rightarrow> string \<Rightarrow> bool" where
  "HasPrefix s prefix \<longleftrightarrow> length s \<ge> length prefix \<and> take (length prefix) s = prefix"

definition TrimPrefix :: "string \<Rightarrow> string \<Rightarrow> string" where
  "TrimPrefix s prefix = (if HasPrefix s prefix then drop (length prefix) s else s)"

text \<open>The payload sent upstream for a generation request (lines 70 to 85).\<close>

definition generation_payload :: "AIRequest \<Rightarrow> HuggingFaceRequest" where
  "generation_payload req =
     \<lparr>Inputs = Prompt req,
      HuggingFaceRequest_Parameters =
        [''max_new_tokens'' \<mapsto> AInt (MaxTokens req),
         ''temperature'' \<mapsto> AFloat (Temperature req),
         ''top_p'' \<mapsto> AFloat (TopP req)] ++ Parameters req,
      Options = [''wait_for_model'' \<mapsto> ABool True]\<rparr>"

definition zero_Choice :: Choice where
  "zero_Choice = \<lparr>Index = 0, Text = [], FinishReason = [], LogProbs = None\<rparr>"

text \<open>
  The loop over the upstream results (lines 117 to 131): \<open>choices\<close> is the slice made
  with one zero choice per result, written at index \<open>i\<close>; \<open>totalTokens\<close> accumulates.
\<close>

fun choices_loop ::
  "string \<Rightarrow> HuggingFaceResponse list \<Rightarrow> int \<Rightarrow> Choice list \<Rightarrow> int \<Rightarrow> Choice list \<times> int" where
  "choices_loop prompt [] i choices totalTokens = (choices, totalTokens)"
| "choices_loop prompt (hfResp # rest) i choices totalTokens =
     (let generatedText = TrimPrefix (GeneratedText hfResp) prompt in
      choices_loop prompt rest (i + 1)
        (choices[nat i := \<lparr>Index = i, Text = generatedText, FinishReason = ''stop'',
                            LogProbs = None\<rparr>])
        (totalTokens + (int (length prompt) + int (length generatedText)) div 4))"

definition GenerateText ::
  "HuggingFaceConfig \<Rightarrow> world \<Rightarrow> AIRequest \<Rightarrow> (error + AIResponse) \<times> event list" where
  "GenerateText cfg w req =
     (case Validate req of
        Some err \<Rightarrow> (Inl (Validation err), [])
      | None \<Rightarrow>
          emit [LogInfo ''Starting text generation'']
            (case makeRequest cfg w (Model req) (generation_payload req) of
               (Inl err, es) \<Rightarrow> (Inl err, es @ [LogError ''Failed to generate text''])
             | (Inr response, es) \<Rightarrow>
                 emit es
                   (case Unmarshal_responses w response of
                      Inl e \<Rightarrow> (Inl (Wrap ''failed to parse response'' e), [])
                    | Inr hfResponses \<Rightarrow>
                        if length hfResponses = 0
                        then (Inl (Errorf ''no response generated''), [])
                        else
                          (case choices_loop (Prompt req) hfResponses 0
                                  (replicate (length hfResponses) zero_Choice) 0 of
                             (choices, totalTokens) \<Rightarrow>
                               (Inr \<lparr>AIResponse_ID = ID req,
                                     AIResponse_Model = Model req,
                                     Choices = choices,
                                     Usage =
                                       \<lparr>PromptTokens = int (length (Prompt req)) div 4,
                                        CompletionTokens =
                                          totalTokens - int (length (Prompt req)) div 4,
                                        TotalTokens = totalTokens\<rparr>,
                                     GeneratedAt = now w 2,
                                     ProcessingMs = (now w 1 - now w 0) sdiv 1000000\<rparr>,
                                [LogInfo ''Text generation completed''])))))"

definition GenerateCompletion ::
  "HuggingFaceConfig \<Rightarrow> world \<Rightarrow> AIRequest \<Rightarrow> (error + AIResponse) \<times> event list" where
  "GenerateCompletion cfg w req = GenerateText cfg w req"

section \<open>AnalyzeSentiment\<close>

text \<open>
  The scan for the highest score (lines 180 to 185), started with the first element
  as \<open>bestResult\<close> and run over the whole inner array.
\<close>

fun best_scan :: "HuggingFaceResponse \<Rightarrow> HuggingFaceResponse list \<Rightarrow> HuggingFaceResponse" where
  "best_scan bestResult [] = bestResult"
| "best_scan bestResult (result # rest) =
     best_scan (if Score result > Score bestResult then result else bestResult) rest"

text \<open>The payload of a sentiment request (lines 159 to 161): the two maps are nil.\<close>

definition sentiment_payload :: "string \<Rightarrow> HuggingFaceRequest" where
  "sentiment_payload text =
     \<lparr>Inputs = text, HuggingFaceRequest_Parameters = Map.empty, Options = Map.empty\<rparr>"

definition AnalyzeSentiment ::
  "HuggingFaceConfig \<Rightarrow> world \<Rightarrow> string \<Rightarrow> (error + SentimentResponse) \<times> event list" where
  "AnalyzeSentiment cfg w text =
     emit [LogInfo ''Starting sentiment analysis'']
       (case makeRequest cfg w ''cardiffnlp/twitter-roberta-base-sentiment-latest''
               (sentiment_payload text) of
          (Inl err, es) \<Rightarrow> (Inl err, es)
        | (Inr response, es) \<Rightarrow>
            emit es
              (case Unmarshal_nested w response of
                 Inl e \<Rightarrow> (Inl (Wrap ''failed to parse sentiment response'' e), [])
               | Inr hfResponses \<Rightarrow>
                   (case hfResponses of
                      [] \<Rightarrow> (Inl (Errorf ''no sentiment analysis result''), [])
                    | [] # _ \<Rightarrow> (Inl (Errorf ''no sentiment analysis result''), [])
                    | (first # others) # _ \<Rightarrow>
                        (let bestResult = best_scan first (first # others) in
                         (Inr \<lparr>SentimentResponse_Text = text,
                               Sentiment = Label bestResult,
                               SentimentResponse_Score = Score bestResult,
                               Confidence = Score bestResult\<rparr>, [])))))"

section \<open>SummarizeText\<close>

text \<open>
  \<open>float64(a) / float64(b)\<close> for two lengths: the lengths convert exactly, the quotient
  is rounded, and a zero divisor gives NaN or an infinity (Go does not panic here).
\<close>

definition float64_div_len :: "world \<Rightarrow> nat \<Rightarrow> nat \<Rightarrow> float" where
  "float64_div_len w a b =
     (if b = 0 then (if a = 0 then NaN else PosInf)
      else Finite (round64 w (of_nat a / of_nat b)))"

text \<open>
  The payload of a summarization request (lines 202 to 208); Go's \<open>/\<close> on \<open>int\<close>
  truncates towards zero.
\<close>

definition summarization_payload :: "string \<Rightarrow> int \<Rightarrow> HuggingFaceRequest" where
  "summarization_payload text maxLength =
     \<lparr>Inputs = text,
      HuggingFaceRequest_Parameters =
        [''max_length'' \<mapsto> AInt maxLength,
         ''min_length'' \<mapsto> AInt (maxLength sdiv 4)],
      Options = Map.empty\<rparr>"

definition SummarizeText ::
  "HuggingFaceConfig \<Rightarrow> world \<Rightarrow> string \<Rightarrow> int \<Rightarrow> (error + SummaryResponse) \<times> event list" where
  "SummarizeText cfg w text maxLength =
     emit [LogInfo ''Starting text summarization'']
       (case makeRequest cfg w ''facebook/bart-large-cnn''
               (summarization_payload text maxLength) of
          (Inl err, es) \<Rightarrow> (Inl err, es)
        | (Inr response, es) \<Rightarrow>
            emit es
              (case Unmarshal_responses w response of
                 Inl e \<Rightarrow> (Inl (Wrap ''failed to parse summarization response'' e), [])
               | Inr hfResponses \<Rightarrow>
                   (case hfResponses of
                      [] \<Rightarrow> (Inl (Errorf ''no summarization result''), [])
                    | first # _ \<Rightarrow>
                        (Inr \<lparr>OriginalText = text,
                              Summary = SummaryText first,
                              Compression =
                                float64_div_len w (length (SummaryText first))
                                  (length text)\<rparr>, []))))"

section \<open>Vocabulary of the properties\<close>

text \<open>
  The request every attempt sends: built afresh from the URL and the serialised
  payload, with the three headers set (lines 297 to 303).
\<close>

definition the_request :: "HuggingFaceConfig \<Rightarrow> string \<Rightarrow> bytes \<Rightarrow> http_request" where
  "the_request cfg url requestBody =
     set_headers cfg \<lparr>Method = ''POST'', URL = url, Header = [], Body = requestBody\<rparr>"

text \<open>
  The events of attempt \<open>k\<close> when it is made: from the second attempt on, the timer
  of \<open>RetryDelay\<close> elapsing and the retry log line, then the request. \<open>run_events\<close>
  are the events of the attempts \<open>k\<close> to \<open>m - 1\<close> in a row.
\<close>

definition attempt_events :: "HuggingFaceConfig \<Rightarrow> http_request \<Rightarrow> int \<Rightarrow> event list" where
  "attempt_events cfg rq k =
     (if k > 0 then [TimerElapsed (RetryDelay cfg), LogInfo ''Retrying request''] else [])
     @ [HTTPDo k rq]"

definition run_events ::
  "HuggingFaceConfig \<Rightarrow> http_request \<Rightarrow> int \<Rightarrow> int \<Rightarrow> event list" where
  "run_events cfg rq k m = concat (map (attempt_events cfg rq) [k..m - 1])"

fun is_HTTPDo :: "event \<Rightarrow> bool" where
  "is_HTTPDo (HTTPDo k rq) = True"
| "is_HTTPDo _ = False"

definition requests_sent :: "event list \<Rightarrow> nat" where
  "requests_sent es = length (filter is_HTTPDo es)"

text \<open>The value \<open>lastErr\<close> holds after an attempt with the given outcome.\<close>

definition lastErr_of :: "world \<Rightarrow> do_result \<Rightarrow> error option" where
  "lastErr_of w r =
     (case attempt_step_of w r of
        Return body \<Rightarrow> None
      | Continue e \<Rightarrow> Some e
      | Break e \<Rightarrow> Some e)"

text \<open>
  Attempt \<open>k\<close> is made and followed by another turn of the loop: the wait before it (if
  any) ends with the timer, and its outcome sends the loop on.
\<close>

definition retried :: "world \<Rightarrow> http_request \<Rightarrow> int \<Rightarrow> bool" where
  "retried w rq k \<longleftrightarrow>
     (k > 0 \<longrightarrow> ctx_done w k = None) \<and>
     (case attempt_step_of w (Do w k rq) of Continue e \<Rightarrow> True | _ \<Rightarrow> False)"

text \<open>
  A retryable outcome in the words of the specification: a network-level failure
  (the call or the reading of the body fails), or a response whose status is neither
  2xx nor in \<open>[400,500)\<close>.
\<close>

fun retryable_failure :: "do_result \<Rightarrow> bool" where
  "retryable_failure (DoFailed e) = True"
| "retryable_failure (Response status (Inl e)) = True"
| "retryable_failure (Response status (Inr body)) =
     (\<not> (200 \<le> status \<and> status < 300) \<and> \<not> (400 \<le> status \<and> status < 500))"

text \<open>
  The error observed on an attempt with the given outcome, written out: the cause of
  a failed call or of a failed read of the body wrapped with its fixed message, and
  for a response the API error with the status code and the upstream's error and
  message fields when the body decodes, with the raw body otherwise.
\<close>

definition observed_error :: "world \<Rightarrow> do_result \<Rightarrow> error" where
  "observed_error w r =
     (case r of
        DoFailed err \<Rightarrow> Wrap ''HTTP request failed'' err
      | Response status rd \<Rightarrow>
          (case rd of
             Inl err \<Rightarrow> Wrap ''failed to read response'' err
           | Inr body \<Rightarrow>
               (case Unmarshal_error w body of
                  Some hfError \<Rightarrow>
                    APIError status (Error hfError) (HuggingFaceError_Message hfError)
                | None \<Rightarrow> APIErrorBody status body)))"

text \<open>The choice the specification describes for the upstream result at position \<open>i\<close>.\<close>

definition choice_of :: "string \<Rightarrow> int \<Rightarrow> HuggingFaceResponse \<Rightarrow> Choice" where
  "choice_of prompt i hfResp =
     \<lparr>Index = i, Text = TrimPrefix (GeneratedText hfResp) prompt, FinishReason = ''stop'',
      LogProbs = None\<rparr>"

definition tokens_of :: "string \<Rightarrow> string \<Rightarrow> int" where
  "tokens_of prompt text = (int (length prompt) + int (length text)) div 4"

definition choice_texts :: "error + AIResponse \<Rightarrow> string list" where
  "choice_texts r = (case r of Inl e \<Rightarrow> [] | Inr resp \<Rightarrow> map Text (Choices resp))"

text \<open>
  Position \<open>i\<close> holds the first element of \<open>xs\<close> that attains the maximum score: no
  score is greater, and every earlier one is smaller.
\<close>

definition first_max :: "HuggingFaceResponse list \<Rightarrow> nat \<Rightarrow> bool" where
  "first_max xs i \<longleftrightarrow>
     i < length xs \<and> (\<forall>j<length xs. Score (xs ! j) \<le> Score (xs ! i)) \<and>
     (\<forall>j<i. Score (xs ! j) < Score (xs ! i))"

text \<open>
  The parameters of the generation payload as the specification words them: the base
  set holds \<open>wait_for_model\<close> beside the three sampling parameters, and the caller's
  parameters are laid over it.
\<close>

definition spec_generation_parameters :: "AIRequest \<Rightarrow> (string \<rightharpoonup> any)" where
  "spec_generation_parameters req =
     [''max_new_tokens'' \<mapsto> AInt (MaxTokens req),
      ''temperature'' \<mapsto> AFloat (Temperature req),
      ''top_p'' \<mapsto> AFloat (TopP req),
      ''wait_for_model'' \<mapsto> ABool True] ++ Parameters req"

section \<open>Example inputs\<close>

definition example_config :: "int \<Rightarrow> HuggingFaceConfig" where
  "example_config n =
     \<lparr>APIKey = ''hf_secret'', BaseURL = ''https://api-inference.huggingface.co'',
      DefaultModel = ''gpt2'', Timeout = 30000000000, RetryAttempts = n,
      RetryDelay = 1000000000, HuggingFaceConfig_MaxTokens = 100,
      HuggingFaceConfig_Temperature = Finite (7 / 10), RateLimitRPM = 60,
      RateLimitTPM = 10000\<rparr>"

definition example_request :: "string \<Rightarrow> float \<Rightarrow> (string \<rightharpoonup> any) \<Rightarrow> AIRequest" where
  "example_request prompt temperature params =
     \<lparr>ID = ''req-1'', Model = ''gpt2'', Prompt = prompt, MaxTokens = 10,
      Temperature = temperature, TopP = Finite (9 / 10), Parameters = params,
      CreatedAt = 0\<rparr>"

definition hello_request :: AIRequest where
  "hello_request = example_request ''Hello'' (Finite (1 / 2)) Map.empty"

definition overriding_request :: AIRequest where
  "overriding_request =
     example_request ''Hello'' (Finite (1 / 2))
       [''temperature'' \<mapsto> AFloat (Finite (1 / 5)), ''wait_for_model'' \<mapsto> ABool False]"

text \<open>Decoders that know the bodies used in the examples, and fail on any other.\<close>

definition example_responses :: "bytes \<Rightarrow> string + HuggingFaceResponse list" where
  \<open>example_responses b =
     (if b = ''[{"generated_text":"Hello world"}]'' then
        Inr [\<lparr>GeneratedText = ''Hello world'', Score = 0, Label = [], SummaryText = []\<rparr>]
      else if b = ''[{"generated_text":"HelloHello!"},{"generated_text":"Bye"}]'' then
        Inr [\<lparr>GeneratedText = ''HelloHello!'', Score = 0, Label = [], SummaryText = []\<rparr>,
             \<lparr>GeneratedText = ''Bye'', Score = 0, Label = [], SummaryText = []\<rparr>]
      else if b = ''[{"summary_text":"Short"},{"summary_text":"Another one"}]'' then
        Inr [\<lparr>GeneratedText = [], Score = 0, Label = [], SummaryText = ''Short''\<rparr>,
             \<lparr>GeneratedText = [], Score = 0, Label = [], SummaryText = ''Another one''\<rparr>]
      else Inl ''invalid character'')\<close>

definition example_nested :: "bytes \<Rightarrow> string + HuggingFaceResponse list list" where
  \<open>example_nested b =
     (if b = ''[[{"label":"neg","score":0.2},{"label":"neu","score":0.5},{"label":"pos","score":0.5}]]''
      then
        Inr [[\<lparr>GeneratedText = [], Score = 1 / 5, Label = ''neg'', SummaryText = []\<rparr>,
              \<lparr>GeneratedText = [], Score = 1 / 2, Label = ''neu'', SummaryText = []\<rparr>,
              \<lparr>GeneratedText = [], Score = 1 / 2, Label = ''pos'', SummaryText = []\<rparr>]]
      else Inl ''invalid character'')\<close>

definition example_error :: "bytes \<Rightarrow> HuggingFaceError option" where
  \<open>example_error b =
     (if b = ''{"error":"Model not found"}''
      then Some \<lparr>Error = ''Model not found'', HuggingFaceError_Message = []\<rparr>
      else if b = ''{"error":"Model is loading","message":"try again"}''
      then Some \<lparr>Error = ''Model is loading'', HuggingFaceError_Message = ''try again''\<rparr>
      else None)\<close>

text \<open>
  A world made of an upstream (its answer at each attempt) and a caller (the outcome
  of each wait); the serialiser keeps the inputs only.
\<close>

definition example_world :: "(int \<Rightarrow> do_result) \<Rightarrow> (int \<Rightarrow> ctx_error option) \<Rightarrow> world" where
  "example_world upstream caller =
     \<lparr>ctx_done = caller, Do = (\<lambda>k rq. upstream k), Marshal = (\<lambda>r. Inr (Inputs r)),
      Unmarshal_responses = example_responses, Unmarshal_nested = example_nested,
      Unmarshal_error = example_error, url_error = (\<lambda>u. None),
      now = (\<lambda>k. 1000000000 + 2500000 * int k), round64 = (\<lambda>q. q)\<rparr>"

definition patient_caller :: "int \<Rightarrow> ctx_error option" where
  "patient_caller k = None"

definition caller_cancelling_at :: "int \<Rightarrow> int \<Rightarrow> ctx_error option" where
  "caller_cancelling_at k0 k = (if k = k0 then Some Canceled else None)"

definition upstream_always_500 :: "int \<Rightarrow> do_result" where
  "upstream_always_500 k = Response 500 (Inr ''Internal Server Error'')"



definition upstream_200 :: "bytes \<Rightarrow> int \<Rightarrow> do_result" where
  "upstream_200 body k = Response 200 (Inr body)"

definition upstream_flaky :: "int \<Rightarrow> do_result" where
  \<open>upstream_flaky k =
     (if k = 0 then Response 500 (Inr ''Internal Server Error'')
      else if k = 1 then DoFailed ''connection reset by peer''
      else Response 503 (Inr ''{"error":"Model is loading","message":"try again"}''))\<close>

definition upstream_truncating :: "int \<Rightarrow> do_result" where
  "upstream_truncating k =
     (if k = 0 then Response 500 (Inr ''Internal Server Error'')
      else Response 502 (Inl ''unexpected EOF''))"



text \<open>Two worlds in which no request can be built.\<close>

definition world_rejecting_url :: world where
  "world_rejecting_url =
     (example_world upstream_always_500 patient_caller)
       \<lparr>url_error := (\<lambda>u. Some ''invalid URL escape'')\<rparr>"

definition world_failing_marshal :: world where
  "world_failing_marshal =
     (example_world upstream_always_500 patient_caller)
       \<lparr>Marshal := (\<lambda>r. Inl ''json: unsupported type'')\<rparr>"



section \<open>Properties\<close>

lemma emit_emit: "emit a (emit b r) = emit (a @ b) r"
  by (simp add: emit_def)

lemma emit_Nil: "emit [] r = r"
  by (simp add: emit_def)

lemma retry_loop_step:
  assumes "url_error w url = None" "attempt \<le> RetryAttempts cfg"
    "retried w (the_request cfg url requestBody) attempt"
  shows "retry_loop cfg w url requestBody attempt lastErr =
         emit (attempt_events cfg (the_request cfg url requestBody) attempt)
           (retry_loop cfg w url requestBody (attempt + 1)
              (lastErr_of w (Do w attempt (the_request cfg url requestBody))))"
  using assms
  by (subst retry_loop.simps)
     (auto simp: retried_def NewRequestWithContext_def the_request_def attempt_events_def
        lastErr_of_def emit_emit emit_Nil split: attempt_step.splits)

lemma run_events_empty: "run_events cfg rq k k = []"
  by (simp add: run_events_def)

lemma run_events_snoc: "k \<le> m \<Longrightarrow> run_events cfg rq k (m + 1) = run_events cfg rq k m @ attempt_events cfg rq m"
  by (simp add: run_events_def upto_rec2)

lemma retry_loop_prefix:
  assumes "url_error w url = None" "k \<le> m" "m \<le> RetryAttempts cfg + 1"
    "\<forall>j. k \<le> j \<and> j < m \<longrightarrow> retried w (the_request cfg url requestBody) j"
  shows "retry_loop cfg w url requestBody k lastErr =
         emit (run_events cfg (the_request cfg url requestBody) k m)
           (retry_loop cfg w url requestBody m
              (if k < m then lastErr_of w (Do w (m - 1) (the_request cfg url requestBody))
               else lastErr))"
  using assms(2,3,4)
proof (induction m rule: int_ge_induct)
  case base
  then show ?case by (simp add: run_events_empty emit_Nil)
next
  case (step i)
  have "retry_loop cfg w url requestBody i
           (if k < i then lastErr_of w (Do w (i - 1) (the_request cfg url requestBody)) else lastErr)
        = emit (attempt_events cfg (the_request cfg url requestBody) i)
           (retry_loop cfg w url requestBody (i + 1)
              (lastErr_of w (Do w i (the_request cfg url requestBody))))"
    using step.prems step.hyps assms(1) by (intro retry_loop_step) auto
  moreover have "retry_loop cfg w url requestBody k lastErr =
         emit (run_events cfg (the_request cfg url requestBody) k i)
           (retry_loop cfg w url requestBody i
              (if k < i then lastErr_of w (Do w (i - 1) (the_request cfg url requestBody))
               else lastErr))"
    using step by auto
  ultimately show ?case
    using step.hyps by (simp add: emit_emit run_events_snoc)
qed

lemma retryable_failure_Continue:
  "retryable_failure r \<Longrightarrow> \<exists>e. attempt_step_of w r = Continue e"
  by (cases r rule: retryable_failure.cases) (auto simp: attempt_step_of_def)

lemma retryable_failure_retried:
  "retryable_failure (Do w k rq) \<Longrightarrow> (0 < k \<longrightarrow> ctx_done w k = None) \<Longrightarrow> retried w rq k"
  using retryable_failure_Continue [of "Do w k rq" w] by (auto simp: retried_def)

lemma requests_sent_append: "requests_sent (a @ b) = requests_sent a + requests_sent b"
  by (simp add: requests_sent_def)

lemma requests_sent_attempt_events: "requests_sent (attempt_events cfg rq k) = 1"
  by (simp add: requests_sent_def attempt_events_def)

lemma requests_sent_run_events:
  "k \<le> m \<Longrightarrow> requests_sent (run_events cfg rq k m) = nat (m - k)"
proof (induction m rule: int_ge_induct)
  case base
  then show ?case by (simp add: run_events_empty requests_sent_def)
next
  case (step i)
  then show ?case
    by (simp add: run_events_snoc requests_sent_append requests_sent_attempt_events nat_add_distrib nat_diff_distrib)
qed

lemma retry_loop_exit:
  "RetryAttempts cfg < attempt \<Longrightarrow>
   retry_loop cfg w url requestBody attempt lastErr = (return_lastErr lastErr, [])"
  by (subst retry_loop.simps) simp

lemma retry_loop_cancelled:
  "0 < attempt \<Longrightarrow> attempt \<le> RetryAttempts cfg \<Longrightarrow> ctx_done w attempt = Some c \<Longrightarrow>
   retry_loop cfg w url requestBody attempt lastErr = (Inl (Ctx c), [ContextDone c])"
  by (subst retry_loop.simps) simp


lemma retry_loop_return:
  assumes "url_error w url = None" "attempt \<le> RetryAttempts cfg"
    "0 < attempt \<longrightarrow> ctx_done w attempt = None"
    "attempt_step_of w (Do w attempt (the_request cfg url requestBody)) = Return body"
  shows "retry_loop cfg w url requestBody attempt lastErr =
         (Inr body, attempt_events cfg (the_request cfg url requestBody) attempt)"
  using assms
  by (subst retry_loop.simps)
     (auto simp: NewRequestWithContext_def the_request_def attempt_events_def
        emit_def return_lastErr_def)

lemma makeRequest_loop:
  assumes "Marshal w req = Inr requestBody"
    and "url_error w (BaseURL cfg @ ''/models/'' @ modelName) = None"
  shows "makeRequest cfg w modelName req =
         retry_loop cfg w (BaseURL cfg @ ''/models/'' @ modelName) requestBody 0 None"
  using assms by (simp add: makeRequest_def NewRequestWithContext_def)

lemma retryable_failure_observed:
  "retryable_failure r \<Longrightarrow> attempt_step_of w r = Continue (observed_error w r)"
  by (cases r rule: retryable_failure.cases)
     (auto simp: attempt_step_of_def observed_error_def api_error_def)

lemma observed_error_not_Ctx: "observed_error w r \<noteq> Ctx c"
  by (auto simp: observed_error_def split: do_result.splits sum.splits option.splits)

lemma makeRequest_exhausted:
  assumes marshal: "Marshal w req = Inr requestBody"
    and url: "url_error w (BaseURL cfg @ ''/models/'' @ modelName) = None"
    and rq: "rq = the_request cfg (BaseURL cfg @ ''/models/'' @ modelName) requestBody"
    and N: "0 \<le> RetryAttempts cfg"
    and not_cancelled: "\<forall>k\<in>{1..RetryAttempts cfg}. ctx_done w k = None"
    and failing: "\<forall>k\<in>{0..RetryAttempts cfg}. retryable_failure (Do w k rq)"
  shows "makeRequest cfg w modelName req =
           (Inl (observed_error w (Do w (RetryAttempts cfg) rq)),
            run_events cfg rq 0 (RetryAttempts cfg + 1))"
proof -
  let ?url = "BaseURL cfg @ ''/models/'' @ modelName"
  let ?N = "RetryAttempts cfg"
  have e: "attempt_step_of w (Do w ?N rq) = Continue (observed_error w (Do w ?N rq))"
    using failing N by (intro retryable_failure_observed) auto
  have all: "\<forall>j. 0 \<le> j \<and> j < ?N + 1 \<longrightarrow> retried w (the_request cfg ?url requestBody) j"
    using failing not_cancelled rq by (auto intro!: retryable_failure_retried)
  have "retry_loop cfg w ?url requestBody 0 None =
        emit (run_events cfg rq 0 (?N + 1))
          (retry_loop cfg w ?url requestBody (?N + 1) (lastErr_of w (Do w ?N rq)))"
    using retry_loop_prefix [OF url _ _ all, of None] N rq by simp
  also have "\<dots> = (Inl (observed_error w (Do w ?N rq)), run_events cfg rq 0 (?N + 1))"
    using e by (simp add: retry_loop_exit lastErr_of_def return_lastErr_def emit_def)
  finally show ?thesis
    using makeRequest_loop [OF marshal url] by simp
qed

text \<open>
  Claim C1, amended. Let the request be buildable (the payload serialises and the URL
  is well formed), let \<open>RetryAttempts = N \<ge> 0\<close>, let no wait be ended by the caller's
  context, and let every attempt \<open>0, \<dots>, N\<close> end in a retryable failure. Then
  \<open>makeRequest\<close> returns the error observed on attempt \<open>N\<close>: the wrapped cause of
  the failed call or of the failed read, or the API error with the status of that
  attempt and the upstream's error and message fields (the raw body when it does not
  decode). What it did is \<open>run_events 0 (N + 1)\<close>: the request of attempt \<open>0\<close>, then
  for each later attempt the timer of \<open>RetryDelay\<close> elapsing, the retry log line and
  the request; these are \<open>N + 1\<close> requests.
\<close>
theorem makeRequest_exhausts_retries:
  assumes marshal: "Marshal w req = Inr requestBody"
    and url: "url_error w (BaseURL cfg @ ''/models/'' @ modelName) = None"
    and rq: "rq = the_request cfg (BaseURL cfg @ ''/models/'' @ modelName) requestBody"
    and N: "0 \<le> RetryAttempts cfg"
    and not_cancelled: "\<forall>k\<in>{1..RetryAttempts cfg}. ctx_done w k = None"
    and failing: "\<forall>k\<in>{0..RetryAttempts cfg}. retryable_failure (Do w k rq)"
  shows "makeRequest cfg w modelName req =
           (Inl (case Do w (RetryAttempts cfg) rq of
                   DoFailed err \<Rightarrow> Wrap ''HTTP request failed'' err
                 | Response status (Inl err) \<Rightarrow> Wrap ''failed to read response'' err
                 | Response status (Inr body) \<Rightarrow>
                     (case Unmarshal_error w body of
                        Some hfError \<Rightarrow>
                          APIError status (Error hfError) (HuggingFaceError_Message hfError)
                      | None \<Rightarrow> APIErrorBody status body)),
            run_events cfg rq 0 (RetryAttempts cfg + 1)) \<and>
         requests_sent (snd (makeRequest cfg w modelName req)) = nat (RetryAttempts cfg) + 1"
proof -
  have res: "makeRequest cfg w modelName req =
      (Inl (observed_error w (Do w (RetryAttempts cfg) rq)),
       run_events cfg rq 0 (RetryAttempts cfg + 1))"
    using assms by (rule makeRequest_exhausted)
  have "requests_sent (run_events cfg rq 0 (RetryAttempts cfg + 1)) =
        nat (RetryAttempts cfg) + 1"
    using N by (simp add: requests_sent_run_events nat_add_distrib)
  with res show ?thesis
    by (simp add: observed_error_def)
qed


lemma lastErr_of_not_Ctx: "lastErr_of w r \<noteq> Some (Ctx c)"
  by (auto simp: lastErr_of_def attempt_step_of_def api_error_def
      split: do_result.splits sum.splits option.splits)

lemma attempt_step_of_not_Ctx:
  "attempt_step_of w r = Continue e \<Longrightarrow> e \<noteq> Ctx c"
  "attempt_step_of w r = Break e \<Longrightarrow> e \<noteq> Ctx c"
  using lastErr_of_not_Ctx [of w r c] by (auto simp: lastErr_of_def)

lemma retry_loop_Ctx_iff:
  "lastErr \<noteq> Some (Ctx c) \<Longrightarrow>
   fst (retry_loop cfg w url requestBody attempt lastErr) = Inl (Ctx c) \<longleftrightarrow>
   ContextDone c \<in> set (snd (retry_loop cfg w url requestBody attempt lastErr))"
proof (induction cfg w url requestBody attempt lastErr rule: retry_loop.induct)
  case (1 cfg w url requestBody attempt lastErr)
  have unfold: "retry_loop cfg w url requestBody attempt lastErr =
     (if attempt \<le> RetryAttempts cfg then
        (case (if attempt > 0 then ctx_done w attempt else None) of
           Some e \<Rightarrow> (Inl (Ctx e), [ContextDone e])
         | None \<Rightarrow>
             emit (if attempt > 0
                   then [TimerElapsed (RetryDelay cfg), LogInfo ''Retrying request'']
                   else [])
               (case NewRequestWithContext w ''POST'' url requestBody of
                  Inl e \<Rightarrow> (Inl (Wrap ''failed to create request'' e), [])
                | Inr httpReq \<Rightarrow>
                    emit [HTTPDo attempt (set_headers cfg httpReq)]
                      (case attempt_step_of w (Do w attempt (set_headers cfg httpReq)) of
                         Return body \<Rightarrow> (Inr body, [])
                       | Continue e \<Rightarrow>
                           retry_loop cfg w url requestBody (attempt + 1) (Some e)
                       | Break e \<Rightarrow> (return_lastErr (Some e), []))))
      else (return_lastErr lastErr, []))"
    by (rule retry_loop.simps)
  show ?case
  proof (cases "attempt \<le> RetryAttempts cfg")
    case False
    then show ?thesis
      using "1.prems" by (auto simp: unfold return_lastErr_def split: option.splits)
  next
    case True
    show ?thesis
    proof (cases "if attempt > 0 then ctx_done w attempt else None")
      case (Some e)
      with True show ?thesis
        by (auto simp: unfold)
    next
      case None
      show ?thesis
      proof (cases "NewRequestWithContext w ''POST'' url requestBody")
        case (Inl e)
        with True None show ?thesis
          by (auto simp: unfold emit_def)
      next
        case (Inr httpReq)
        show ?thesis
        proof (cases "attempt_step_of w (Do w attempt (set_headers cfg httpReq))")
          case (Return body)
          with True None Inr show ?thesis
            by (auto simp: unfold emit_def)
        next
          case (Continue e)
          then have "Some e \<noteq> Some (Ctx c)"
            by (auto dest: attempt_step_of_not_Ctx)
          from "1.IH" [OF True None Inr Continue this] True None Inr Continue
          show ?thesis
            by (auto simp: unfold emit_def)
        next
          case (Break e)
          then have "e \<noteq> Ctx c"
            by (auto dest: attempt_step_of_not_Ctx)
          with True None Inr Break show ?thesis
            by (auto simp: unfold emit_def return_lastErr_def)
        qed
      qed
    qed
  qed
qed

lemma makeRequest_Ctx_iff:
  "fst (makeRequest cfg w modelName req) = Inl (Ctx c) \<longleftrightarrow>
   ContextDone c \<in> set (snd (makeRequest cfg w modelName req))"
  using retry_loop_Ctx_iff [of None c cfg w "BaseURL cfg @ ''/models/'' @ modelName" _ 0]
  by (auto simp: makeRequest_def split: sum.splits)

lemma makeRequest_cancelled_run:
  assumes marshal: "Marshal w req = Inr requestBody"
    and url: "url_error w (BaseURL cfg @ ''/models/'' @ modelName) = None"
    and rq: "rq = the_request cfg (BaseURL cfg @ ''/models/'' @ modelName) requestBody"
    and k: "0 < k" "k \<le> RetryAttempts cfg"
    and earlier: "\<forall>j\<in>{0..<k}. retried w rq j"
    and cancelled: "ctx_done w k = Some c"
  shows "makeRequest cfg w modelName req =
           (Inl (Ctx c), run_events cfg rq 0 k @ [ContextDone c])"
proof -
  let ?url = "BaseURL cfg @ ''/models/'' @ modelName"
  have all: "\<forall>j. 0 \<le> j \<and> j < k \<longrightarrow> retried w (the_request cfg ?url requestBody) j"
    using earlier rq by auto
  have "retry_loop cfg w ?url requestBody 0 None =
        emit (run_events cfg rq 0 k)
          (retry_loop cfg w ?url requestBody k
             (if 0 < k then lastErr_of w (Do w (k - 1) rq) else None))"
    using retry_loop_prefix [OF url _ _ all, of None] k rq by simp
  also have "\<dots> = (Inl (Ctx c), run_events cfg rq 0 k @ [ContextDone c])"
    using retry_loop_cancelled [OF k cancelled] by (simp add: emit_def)
  finally show ?thesis
    using makeRequest_loop [OF marshal url] by simp
qed

text \<open>
  Claim C3. Let the wait before attempt \<open>k > 0\<close> be reached and be ended by the
  caller's context with error \<open>c\<close>. Then \<open>makeRequest\<close> returns \<open>Ctx c\<close>, the value of
  \<open>ctx.Err()\<close>, and does nothing after that wait: the requests sent are those of
  the attempts \<open>0, \<dots>, k - 1\<close>. This error is not the one of an exhaustion: in every
  world where the same request runs out of its retries, \<open>makeRequest\<close> returns the
  error observed on the last attempt, which is not \<open>Ctx c\<close>; and on any call at all,
  \<open>makeRequest\<close> returns \<open>Ctx c\<close> exactly when one of its waits was ended by the
  context with \<open>c\<close>.
\<close>
theorem makeRequest_cancelled_during_wait:
  assumes marshal: "Marshal w req = Inr requestBody"
    and url: "url_error w (BaseURL cfg @ ''/models/'' @ modelName) = None"
    and rq: "rq = the_request cfg (BaseURL cfg @ ''/models/'' @ modelName) requestBody"
    and k: "0 < k" "k \<le> RetryAttempts cfg"
    and earlier: "\<forall>j\<in>{0..<k}. retried w rq j"
    and cancelled: "ctx_done w k = Some c"
  shows "makeRequest cfg w modelName req =
           (Inl (Ctx c), run_events cfg rq 0 k @ [ContextDone c]) \<and>
         requests_sent (snd (makeRequest cfg w modelName req)) = nat k \<and>
         (\<forall>w' requestBody'.
            Marshal w' req = Inr requestBody' \<and>
            url_error w' (BaseURL cfg @ ''/models/'' @ modelName) = None \<and>
            (\<forall>j\<in>{1..RetryAttempts cfg}. ctx_done w' j = None) \<and>
            (\<forall>j\<in>{0..RetryAttempts cfg}.
               retryable_failure
                 (Do w' j (the_request cfg (BaseURL cfg @ ''/models/'' @ modelName)
                    requestBody'))) \<longrightarrow>
            fst (makeRequest cfg w' modelName req) =
              Inl (observed_error w'
                     (Do w' (RetryAttempts cfg)
                        (the_request cfg (BaseURL cfg @ ''/models/'' @ modelName)
                           requestBody'))) \<and>
            fst (makeRequest cfg w' modelName req) \<noteq> Inl (Ctx c)) \<and>
         (\<forall>cfg' w' modelName' req'.
            fst (makeRequest cfg' w' modelName' req') = Inl (Ctx c) \<longleftrightarrow>
            ContextDone c \<in> set (snd (makeRequest cfg' w' modelName' req')))"
proof -
  have res: "makeRequest cfg w modelName req =
      (Inl (Ctx c), run_events cfg rq 0 k @ [ContextDone c])"
    using assms by (rule makeRequest_cancelled_run)
  have "requests_sent [ContextDone c] = 0"
    by (simp add: requests_sent_def)
  then have sent: "requests_sent (run_events cfg rq 0 k @ [ContextDone c]) = nat k"
    using k by (simp add: requests_sent_append requests_sent_run_events)
  have exhausted: "fst (makeRequest cfg w' modelName req) =
         Inl (observed_error w'
                (Do w' (RetryAttempts cfg)
                   (the_request cfg (BaseURL cfg @ ''/models/'' @ modelName) requestBody'))) \<and>
       fst (makeRequest cfg w' modelName req) \<noteq> Inl (Ctx c)"
    if "Marshal w' req = Inr requestBody'"
      and "url_error w' (BaseURL cfg @ ''/models/'' @ modelName) = None"
      and "\<forall>j\<in>{1..RetryAttempts cfg}. ctx_done w' j = None"
      and "\<forall>j\<in>{0..RetryAttempts cfg}.
             retryable_failure
               (Do w' j (the_request cfg (BaseURL cfg @ ''/models/'' @ modelName)
                  requestBody'))"
    for w' requestBody'
  proof -
    have "0 \<le> RetryAttempts cfg"
      using k by simp
    from makeRequest_exhausted [OF that(1,2) refl this that(3,4)]
    show ?thesis
      by (simp add: observed_error_not_Ctx)
  qed
  have count: "requests_sent (snd (makeRequest cfg w modelName req)) = nat k"
    using res sent by simp
  have on_exhaustion:
    "\<forall>w' requestBody'.
       Marshal w' req = Inr requestBody' \<and>
       url_error w' (BaseURL cfg @ ''/models/'' @ modelName) = None \<and>
       (\<forall>j\<in>{1..RetryAttempts cfg}. ctx_done w' j = None) \<and>
       (\<forall>j\<in>{0..RetryAttempts cfg}.
          retryable_failure
            (Do w' j (the_request cfg (BaseURL cfg @ ''/models/'' @ modelName)
               requestBody'))) \<longrightarrow>
       fst (makeRequest cfg w' modelName req) =
         Inl (observed_error w'
                (Do w' (RetryAttempts cfg)
                   (the_request cfg (BaseURL cfg @ ''/models/'' @ modelName)
                      requestBody'))) \<and>
       fst (makeRequest cfg w' modelName req) \<noteq> Inl (Ctx c)"
    using exhausted by blast
  have in_general:
    "\<forall>cfg' w' modelName' req'.
       fst (makeRequest cfg' w' modelName' req') = Inl (Ctx c) \<longleftrightarrow>
       ContextDone c \<in> set (snd (makeRequest cfg' w' modelName' req'))"
    using makeRequest_Ctx_iff by blast
  show ?thesis
    by (rule conjI [OF res conjI [OF count conjI [OF on_exhaustion in_general]]])
qed

lemma choices_loop_eq:
  "0 \<le> i \<Longrightarrow> length choices = nat i + length rs \<Longrightarrow>
   choices_loop prompt rs i choices tot =
     (take (nat i) choices @ map (\<lambda>(j, r). choice_of prompt (int j) r) (enumerate (nat i) rs),
      tot + (\<Sum>r\<leftarrow>rs. tokens_of prompt (TrimPrefix (GeneratedText r) prompt)))"
proof (induction rs arbitrary: i choices tot)
  case Nil
  then show ?case by simp
next
  case (Cons r rs)
  let ?c = "choice_of prompt i r"
  have len: "nat i < length choices"
    using Cons.prems by simp
  have suc: "nat (i + 1) = Suc (nat i)"
    using Cons.prems(1) by (simp add: nat_add_distrib)
  have step: "take (Suc (nat i)) (choices[nat i := ?c]) = take (nat i) choices @ [?c]"
    using len by (simp add: take_Suc_conv_app_nth)
  have "choices_loop prompt (r # rs) i choices tot =
        choices_loop prompt rs (i + 1) (choices[nat i := ?c])
          (tot + tokens_of prompt (TrimPrefix (GeneratedText r) prompt))"
    by (simp add: choice_of_def tokens_of_def Let_def)
  also have "\<dots> =
      (take (nat (i + 1)) (choices[nat i := ?c]) @
         map (\<lambda>(j, r). choice_of prompt (int j) r) (enumerate (nat (i + 1)) rs),
       tot + tokens_of prompt (TrimPrefix (GeneratedText r) prompt) +
         (\<Sum>r\<leftarrow>rs. tokens_of prompt (TrimPrefix (GeneratedText r) prompt)))"
    using Cons.prems by (intro Cons.IH) auto
  finally show ?case
    using Cons.prems(1) by (simp add: step suc)
qed

lemma choices_loop_initial:
  "choices_loop prompt rs 0 (replicate (length rs) zero_Choice) 0 =
     (map (\<lambda>(j, r). choice_of prompt (int j) r) (enumerate 0 rs),
      \<Sum>r\<leftarrow>rs. tokens_of prompt (TrimPrefix (GeneratedText r) prompt))"
  using choices_loop_eq [of 0 "replicate (length rs) zero_Choice" rs prompt 0] by simp

lemma sum_tokens_enumerate:
  "(\<Sum>c\<leftarrow>map (\<lambda>(j, r). choice_of prompt (int j) r) (enumerate n rs). tokens_of prompt (Text c)) =
   (\<Sum>r\<leftarrow>rs. tokens_of prompt (TrimPrefix (GeneratedText r) prompt))"
  by (induction rs arbitrary: n) (simp_all add: choice_of_def)

lemma GenerateText_Inr:
  assumes "fst (GenerateText cfg w req) = Inr resp"
  shows "\<exists>response es hfResponses.
           makeRequest cfg w (Model req) (generation_payload req) = (Inr response, es) \<and>
           Unmarshal_responses w response = Inr hfResponses \<and> hfResponses \<noteq> [] \<and>
           resp = \<lparr>AIResponse_ID = ID req, AIResponse_Model = Model req,
                   Choices = map (\<lambda>(j, r). choice_of (Prompt req) (int j) r) (enumerate 0 hfResponses),
                   Usage = \<lparr>PromptTokens = int (length (Prompt req)) div 4,
                            CompletionTokens =
                              (\<Sum>r\<leftarrow>hfResponses. tokens_of (Prompt req) (TrimPrefix (GeneratedText r) (Prompt req)))
                              - int (length (Prompt req)) div 4,
                            TotalTokens =
                              (\<Sum>r\<leftarrow>hfResponses. tokens_of (Prompt req) (TrimPrefix (GeneratedText r) (Prompt req)))\<rparr>,
                   GeneratedAt = now w 2,
                   ProcessingMs = (now w 1 - now w 0) sdiv 1000000\<rparr>"
  using assms
  by (auto simp: GenerateText_def emit_def choices_loop_initial
      split: option.splits prod.splits sum.splits if_splits)

lemma makeRequest_first_attempt_200:
  assumes marshal: "Marshal w req = Inr requestBody"
    and url: "url_error w (BaseURL cfg @ ''/models/'' @ modelName) = None"
    and N: "0 \<le> RetryAttempts cfg"
    and ok: "Do w 0 (the_request cfg (BaseURL cfg @ ''/models/'' @ modelName) requestBody) =
             Response 200 (Inr body)"
  shows "makeRequest cfg w modelName req =
         (Inr body,
          [HTTPDo 0 (the_request cfg (BaseURL cfg @ ''/models/'' @ modelName) requestBody)])"
proof -
  let ?url = "BaseURL cfg @ ''/models/'' @ modelName"
  have "attempt_step_of w (Do w 0 (the_request cfg ?url requestBody)) = Return body"
    using ok by (simp add: attempt_step_of_def)
  with url N have "retry_loop cfg w ?url requestBody 0 None =
      (Inr body, attempt_events cfg (the_request cfg ?url requestBody) 0)"
    by (intro retry_loop_return) auto
  then show ?thesis
    using makeRequest_loop [OF marshal url] by (simp add: attempt_events_def)
qed

lemma first_max_snoc_greater:
  assumes "first_max pre ib" "Score (pre ! ib) < Score x"
  shows "first_max (pre @ [x]) (length pre)"
  using assms by (auto simp: first_max_def nth_append less_Suc_eq)

lemma first_max_snoc_not_greater:
  assumes "first_max pre ib" "\<not> Score (pre ! ib) < Score x"
  shows "first_max (pre @ [x]) ib"
  using assms by (auto simp: first_max_def nth_append less_Suc_eq)

lemma best_scan_first_max:
  "first_max pre ib \<Longrightarrow>
   \<exists>i. first_max (pre @ xs) i \<and> best_scan (pre ! ib) xs = (pre @ xs) ! i"
proof (induction xs arbitrary: pre ib)
  case Nil
  then show ?case by (auto simp: first_max_def)
next
  case (Cons x xs)
  show ?case
  proof (cases "Score (pre ! ib) < Score x")
    case True
    have "first_max (pre @ [x]) (length pre)"
      using Cons.prems True by (rule first_max_snoc_greater)
    from Cons.IH [OF this] show ?thesis
      using True by simp
  next
    case False
    have fm: "first_max (pre @ [x]) ib"
      using Cons.prems False by (rule first_max_snoc_not_greater)
    have "ib < length pre"
      using Cons.prems by (simp add: first_max_def)
    with Cons.IH [OF fm] show ?thesis
      using False by (simp add: nth_append)
  qed
qed

lemma best_scan_whole:
  "\<exists>i. first_max (x # xs) i \<and> best_scan x (x # xs) = (x # xs) ! i"
proof -
  have "first_max [x] 0"
    by (simp add: first_max_def)
  from best_scan_first_max [OF this, of xs] show ?thesis
    by simp
qed

text \<open>
  Claim C4. When the upstream body decodes to an outer array whose first inner array
  \<open>inner\<close> is not empty, \<open>AnalyzeSentiment\<close> returns the label and the score of
  \<open>inner ! i\<close>, where \<open>i\<close> is the first position attaining the maximum score (every
  earlier score is strictly smaller, no score is greater), and the confidence is that
  score.
\<close>
theorem AnalyzeSentiment_first_maximum:
  assumes request: "fst (makeRequest cfg w ''cardiffnlp/twitter-roberta-base-sentiment-latest''
                      (sentiment_payload text)) = Inr response"
    and parse: "Unmarshal_nested w response = Inr (inner # rest)"
    and nonempty: "inner \<noteq> []"
  shows "\<exists>i. first_max inner i \<and>
             fst (AnalyzeSentiment cfg w text) =
               Inr \<lparr>SentimentResponse_Text = text, Sentiment = Label (inner ! i),
                    SentimentResponse_Score = Score (inner ! i),
                    Confidence = Score (inner ! i)\<rparr>"
proof -
  obtain x xs where inner: "inner = x # xs"
    using nonempty by (cases inner) auto
  obtain i where i: "first_max (x # xs) i" "best_scan x (x # xs) = (x # xs) ! i"
    using best_scan_whole by blast
  obtain es where "makeRequest cfg w ''cardiffnlp/twitter-roberta-base-sentiment-latest''
                     (sentiment_payload text) = (Inr response, es)"
    using request by (metis prod.collapse)
  then have "fst (AnalyzeSentiment cfg w text) =
             Inr \<lparr>SentimentResponse_Text = text, Sentiment = Label ((x # xs) ! i),
                  SentimentResponse_Score = Score ((x # xs) ! i),
                  Confidence = Score ((x # xs) ! i)\<rparr>"
    using parse i(2) unfolding inner AnalyzeSentiment_def
    by (simp add: emit_def Let_def del: best_scan.simps)
  with i(1) inner show ?thesis by blast
qed

lemma TrimPrefix_append: "TrimPrefix (p @ s) p = s"
  by (simp add: TrimPrefix_def HasPrefix_def)

lemma TrimPrefix_no_prefix: "\<not> (\<exists>t. s = p @ t) \<Longrightarrow> TrimPrefix s p = s"
  by (auto simp: TrimPrefix_def HasPrefix_def) (metis append_take_drop_id)

text \<open>
  Claim C5, amended. When \<open>GenerateText\<close> succeeds there is one choice per upstream
  result, and the choice at position \<open>i\<close> has index \<open>i\<close>, finish reason \<open>stop\<close> and
  the text \<open>TrimPrefix\<close> of the \<open>i\<close>-th generated text by the prompt: one leading
  copy of the prompt is cut (a second copy stays), and a text that does not start with
  the prompt is kept as it is. For the prompt \<open>Hello\<close> and the generated text
  \<open>Hello world\<close> the choice text is \<open>world\<close> with the blank before it.
\<close>
theorem GenerateText_choices:
  assumes "fst (GenerateText cfg w req) = Inr resp"
  shows "(\<exists>response hfResponses.
            fst (makeRequest cfg w (Model req) (generation_payload req)) = Inr response \<and>
            Unmarshal_responses w response = Inr hfResponses \<and>
            length (Choices resp) = length hfResponses \<and>
            (\<forall>i<length hfResponses.
               Choices resp ! i =
                 \<lparr>Index = int i,
                  Text = TrimPrefix (GeneratedText (hfResponses ! i)) (Prompt req),
                  FinishReason = ''stop'', LogProbs = None\<rparr>)) \<and>
         (\<forall>s. TrimPrefix (Prompt req @ s) (Prompt req) = s) \<and>
         (\<forall>s. \<not> (\<exists>t. s = Prompt req @ t) \<longrightarrow> TrimPrefix s (Prompt req) = s) \<and>
         TrimPrefix ''Hello world'' ''Hello'' = '' world''"
proof -
  obtain response es hfResponses where
    mk: "makeRequest cfg w (Model req) (generation_payload req) = (Inr response, es)" and
    un: "Unmarshal_responses w response = Inr hfResponses" and
    ch: "Choices resp =
           map (\<lambda>(j, r). choice_of (Prompt req) (int j) r) (enumerate 0 hfResponses)"
    using GenerateText_Inr [OF assms] by (metis AIResponse.select_convs(3))
  have "\<forall>i<length hfResponses.
          Choices resp ! i =
            \<lparr>Index = int i, Text = TrimPrefix (GeneratedText (hfResponses ! i)) (Prompt req),
             FinishReason = ''stop'', LogProbs = None\<rparr>"
    by (simp add: ch nth_enumerate_eq choice_of_def)
  moreover have "length (Choices resp) = length hfResponses"
    by (simp add: ch)
  moreover have "TrimPrefix ''Hello world'' ''Hello'' = '' world''"
    by (simp add: TrimPrefix_def HasPrefix_def)
  ultimately show ?thesis
    using mk un TrimPrefix_append TrimPrefix_no_prefix by simp
qed

text \<open>
  Claim C6. In every result \<open>GenerateText\<close> returns, the total is the sum of prompt
  and completion tokens, the prompt tokens are the length of the prompt divided by
  four, and the total is the sum over the choices of the length of the prompt plus the
  length of the choice text, divided by four (integer division).
\<close>
theorem GenerateText_usage:
  assumes "fst (GenerateText cfg w req) = Inr resp"
  shows "TotalTokens (Usage resp) = PromptTokens (Usage resp) + CompletionTokens (Usage resp) \<and>
         PromptTokens (Usage resp) = int (length (Prompt req)) div 4 \<and>
         TotalTokens (Usage resp) =
           (\<Sum>c\<leftarrow>Choices resp. (int (length (Prompt req)) + int (length (Text c))) div 4)"
proof -
  obtain hfResponses where
    resp: "resp = \<lparr>AIResponse_ID = ID req, AIResponse_Model = Model req,
                   Choices = map (\<lambda>(j, r). choice_of (Prompt req) (int j) r) (enumerate 0 hfResponses),
                   Usage = \<lparr>PromptTokens = int (length (Prompt req)) div 4,
                            CompletionTokens =
                              (\<Sum>r\<leftarrow>hfResponses. tokens_of (Prompt req) (TrimPrefix (GeneratedText r) (Prompt req)))
                              - int (length (Prompt req)) div 4,
                            TotalTokens =
                              (\<Sum>r\<leftarrow>hfResponses. tokens_of (Prompt req) (TrimPrefix (GeneratedText r) (Prompt req)))\<rparr>,
                   GeneratedAt = now w 2,
                   ProcessingMs = (now w 1 - now w 0) sdiv 1000000\<rparr>"
    using GenerateText_Inr [OF assms] by blast
  have "(\<Sum>c\<leftarrow>Choices resp. (int (length (Prompt req)) + int (length (Text c))) div 4) =
        (\<Sum>r\<leftarrow>hfResponses. tokens_of (Prompt req) (TrimPrefix (GeneratedText r) (Prompt req)))"
    using sum_tokens_enumerate [of "Prompt req" 0 hfResponses]
    by (simp add: resp tokens_of_def)
  then show ?thesis
    by (simp add: resp)
qed

text \<open>
  What \<open>Validate\<close> does reject: a request with an empty prompt, an empty model name,
  or a temperature below 0 or above 1 makes \<open>GenerateText\<close> return a validation
  error (code 400) with no event at all: nothing is logged and no request is sent.
  When the prompt, the model and the token limit pass their checks, the message is
  the fixed one about the temperature.
\<close>

lemma GenerateText_validation:
  assumes "Prompt req = [] \<or> Model req = [] \<or>
           float_less (Temperature req) (Finite 0) \<or> float_less (Finite 1) (Temperature req)"
  shows "\<exists>err. GenerateText cfg w req = (Inl (Validation err), []) \<and>
               Code err = 400 \<and> Type err = ''validation_error'' \<and>
               (Prompt req \<noteq> [] \<and> Model req \<noteq> [] \<and> 0 \<le> MaxTokens req \<longrightarrow>
                  Message err = ''temperature must be between 0 and 1'')"
  using assms by (auto simp: GenerateText_def Validate_def)

text \<open>
  Claim C8. When the text is not empty and the upstream body decodes to a non-empty
  array, \<open>SummarizeText\<close> returns the summary of the first element, whatever the rest
  of the array is, and the compression is the length of that summary divided by the
  length of the text (as a \<open>float64\<close>).
\<close>
theorem SummarizeText_first_summary:
  assumes request: "fst (makeRequest cfg w ''facebook/bart-large-cnn''
                      (summarization_payload text maxLength)) = Inr response"
    and parse: "Unmarshal_responses w response = Inr (first # rest)"
    and nonempty: "0 < length text"
  shows "fst (SummarizeText cfg w text maxLength) =
           Inr \<lparr>OriginalText = text, Summary = SummaryText first,
                Compression =
                  Finite (round64 w (of_nat (length (SummaryText first)) / of_nat (length text)))\<rparr>"
proof -
  obtain es where "makeRequest cfg w ''facebook/bart-large-cnn''
                     (summarization_payload text maxLength) = (Inr response, es)"
    using request by (metis prod.collapse)
  then show ?thesis
    using parse nonempty by (simp add: SummarizeText_def emit_def float64_div_len_def)
qed

lemma retry_loop_requests:
  "HTTPDo k rq \<in> set (snd (retry_loop cfg w url requestBody attempt lastErr)) \<Longrightarrow>
   rq = the_request cfg url requestBody"
proof (induction cfg w url requestBody attempt lastErr rule: retry_loop.induct)
  case (1 cfg w url requestBody attempt lastErr)
  from "1.prems" show ?case
    by (subst (asm) retry_loop.simps)
       (auto simp: emit_def NewRequestWithContext_def the_request_def
          split: if_splits option.splits attempt_step.splits
          dest: "1.IH" [unfolded NewRequestWithContext_def])
qed

lemma makeRequest_requests:
  assumes "HTTPDo k rq \<in> set (snd (makeRequest cfg w modelName req))"
  shows "Marshal w req = Inr (Body rq) \<and> URL rq = BaseURL cfg @ ''/models/'' @ modelName"
proof -
  let ?url = "BaseURL cfg @ ''/models/'' @ modelName"
  obtain b where b: "Marshal w req = Inr b"
    and sent: "HTTPDo k rq \<in> set (snd (retry_loop cfg w ?url b 0 None))"
    using assms
    by (auto simp: makeRequest_def NewRequestWithContext_def split: sum.splits option.splits)
  from retry_loop_requests [OF sent] have "rq = the_request cfg ?url b" .
  then show ?thesis
    using b by (simp add: the_request_def set_headers_def)
qed

lemma GenerateText_requests:
  assumes "HTTPDo k rq \<in> set (snd (GenerateText cfg w req))"
  shows "Marshal w (generation_payload req) = Inr (Body rq) \<and>
         URL rq = BaseURL cfg @ ''/models/'' @ Model req"
proof -
  have "HTTPDo k rq \<in> set (snd (makeRequest cfg w (Model req) (generation_payload req)))"
    using assms
    by (auto simp: GenerateText_def emit_def
        split: option.splits prod.splits sum.splits if_splits)
  then show ?thesis
    by (rule makeRequest_requests)
qed

text \<open>
  Claim C9, amended. The parameters of the generation payload are the three base
  parameters \<open>max_new_tokens\<close>, \<open>temperature\<close> and \<open>top_p\<close> with the caller's parameters
  laid over them, so the caller's value wins on every key it sets; \<open>wait_for_model\<close>
  is no parameter: it is the one entry of the options, always true. Every request
  \<open>GenerateText\<close> sends has the serialisation of this payload as its body.
\<close>
theorem generation_payload_overlay:
  "HuggingFaceRequest_Parameters (generation_payload req) =
     [''max_new_tokens'' \<mapsto> AInt (MaxTokens req),
      ''temperature'' \<mapsto> AFloat (Temperature req),
      ''top_p'' \<mapsto> AFloat (TopP req)] ++ Parameters req \<and>
   (\<forall>k v. Parameters req k = Some v \<longrightarrow>
      HuggingFaceRequest_Parameters (generation_payload req) k = Some v) \<and>
   Options (generation_payload req) = [''wait_for_model'' \<mapsto> ABool True] \<and>
   (\<forall>k rq. HTTPDo k rq \<in> set (snd (GenerateText cfg w req)) \<longrightarrow>
      Marshal w (generation_payload req) = Inr (Body rq))"
  using GenerateText_requests [of _ _ cfg w req]
  by (simp add: generation_payload_def map_add_def)

text \<open>
  Claim C10. \<open>GenerateCompletion\<close> returns the result, the error and the events of
  \<open>GenerateText\<close> on the same arguments.
\<close>
theorem GenerateCompletion_is_GenerateText:
  "GenerateCompletion cfg w req = GenerateText cfg w req"
  by (simp add: GenerateCompletion_def)

section \<open>The properties on the example inputs\<close>

lemma makeRequest_example_200:
  assumes "0 \<le> n"
  shows "makeRequest (example_config n) (example_world (upstream_200 body) caller) modelName req =
         (Inr body,
          [HTTPDo 0 (the_request (example_config n)
             (BaseURL (example_config n) @ ''/models/'' @ modelName) (Inputs req))])"
  using assms
  by (intro makeRequest_first_attempt_200)
     (simp_all add: example_world_def example_config_def upstream_200_def)

lemma example_marshal:
  "Marshal (example_world upstream caller) (generation_payload hello_request) = Inr ''Hello''"
  by (simp add: example_world_def generation_payload_def hello_request_def
      example_request_def)

lemma example_url: "url_error (example_world upstream caller) url = None"
  by (simp add: example_world_def)

lemma example_config_simps:
  "BaseURL (example_config n) = ''https://api-inference.huggingface.co''"
  "RetryAttempts (example_config n) = n"
  "RetryDelay (example_config n) = 1000000000"
  by (simp_all add: example_config_def)

theorem makeRequest_exhausts_retries_witness:
  "makeRequest (example_config 2) (example_world upstream_flaky patient_caller)
      ''gpt2'' (generation_payload hello_request) =
     (Inl (APIError 503 ''Model is loading'' ''try again''),
      [HTTPDo 0 (the_request (example_config 2)
                   ''https://api-inference.huggingface.co/models/gpt2'' ''Hello''),
       TimerElapsed 1000000000, LogInfo ''Retrying request'',
       HTTPDo 1 (the_request (example_config 2)
                   ''https://api-inference.huggingface.co/models/gpt2'' ''Hello''),
       TimerElapsed 1000000000, LogInfo ''Retrying request'',
       HTTPDo 2 (the_request (example_config 2)
                   ''https://api-inference.huggingface.co/models/gpt2'' ''Hello'')]) \<and>
   requests_sent (snd (makeRequest (example_config 2)
      (example_world upstream_flaky patient_caller)
      ''gpt2'' (generation_payload hello_request))) = 3 \<and>
   fst (makeRequest (example_config 1) (example_world upstream_flaky patient_caller)
      ''gpt2'' (generation_payload hello_request)) =
     Inl (Wrap ''HTTP request failed'' ''connection reset by peer'') \<and>
   fst (makeRequest (example_config 1) (example_world upstream_truncating patient_caller)
      ''gpt2'' (generation_payload hello_request)) =
     Inl (Wrap ''failed to read response'' ''unexpected EOF'') \<and>
   fst (makeRequest (example_config 0) (example_world upstream_always_500 patient_caller)
      ''gpt2'' (generation_payload hello_request)) =
     Inl (APIErrorBody 500 ''Internal Server Error'')"
proof -
  let ?url = "\<lambda>n. BaseURL (example_config n) @ ''/models/'' @ ''gpt2''"
  let ?rq = "\<lambda>n. the_request (example_config n) (?url n) ''Hello''"
  let ?flaky = "example_world upstream_flaky patient_caller"
  let ?truncating = "example_world upstream_truncating patient_caller"
  let ?always = "example_world upstream_always_500 patient_caller"
  have patient: "\<forall>k\<in>{1..RetryAttempts (example_config n)}.
                   ctx_done (example_world upstream patient_caller) k = None"
    for n upstream
    by (simp add: example_world_def patient_caller_def)
  have N: "0 \<le> RetryAttempts (example_config 2)" "0 \<le> RetryAttempts (example_config 1)"
    "0 \<le> RetryAttempts (example_config 0)"
    by (simp_all add: example_config_simps)
  have flaky: "\<forall>k\<in>{0..RetryAttempts (example_config n)}.
                 retryable_failure (Do ?flaky k (?rq n))" for n
    by (simp add: example_world_def upstream_flaky_def)
  have truncating: "\<forall>k\<in>{0..RetryAttempts (example_config 1)}.
                 retryable_failure (Do ?truncating k (?rq 1))"
    by (simp add: example_world_def upstream_truncating_def)
  have always: "\<forall>k\<in>{0..RetryAttempts (example_config 0)}.
                 retryable_failure (Do ?always k (?rq 0))"
    by (simp add: example_world_def upstream_always_500_def)
  note three = makeRequest_exhausts_retries
    [OF example_marshal example_url refl N(1) patient flaky]
  note two = makeRequest_exhausts_retries
    [OF example_marshal example_url refl N(2) patient flaky]
  note read = makeRequest_exhausts_retries
    [OF example_marshal example_url refl N(2) patient truncating]
  note one = makeRequest_exhausts_retries
    [OF example_marshal example_url refl N(3) patient always]
  have last:
    \<open>Do ?flaky 2 rq =
       Response 503 (Inr ''{"error":"Model is loading","message":"try again"}'')\<close>
    "Do ?flaky 1 rq = DoFailed ''connection reset by peer''"
    "Do ?truncating 1 rq = Response 502 (Inl ''unexpected EOF'')"
    "Do ?always 0 rq = Response 500 (Inr ''Internal Server Error'')"
    for rq
    by (simp_all add: example_world_def upstream_flaky_def upstream_truncating_def
        upstream_always_500_def)
  have decode:
    \<open>Unmarshal_error ?flaky ''{"error":"Model is loading","message":"try again"}'' =
       Some \<lparr>Error = ''Model is loading'', HuggingFaceError_Message = ''try again''\<rparr>\<close>
    "Unmarshal_error ?always ''Internal Server Error'' = None"
    by (simp_all add: example_world_def example_error_def)
  show ?thesis
    using three two read one
    by (simp add: example_config_simps last decode run_events_def attempt_events_def
        upto_rec1 requests_sent_def)
qed

theorem makeRequest_exhausts_retries_counterexample:
  "RetryAttempts (example_config 3) = 3 \<and>
   map upstream_always_500 [0, 1, 2, 3] =
     [Response 500 (Inr ''Internal Server Error''),
      Response 500 (Inr ''Internal Server Error''),
      Response 500 (Inr ''Internal Server Error''),
      Response 500 (Inr ''Internal Server Error'')] \<and>
   makeRequest (example_config 3)
      (example_world upstream_always_500 (caller_cancelling_at 1))
      ''gpt2'' (generation_payload hello_request) =
     (Inl (Ctx Canceled),
      [HTTPDo 0 (the_request (example_config 3)
                   ''https://api-inference.huggingface.co/models/gpt2'' ''Hello''),
       ContextDone Canceled]) \<and>
   requests_sent (snd (makeRequest (example_config 3)
      (example_world upstream_always_500 (caller_cancelling_at 1))
      ''gpt2'' (generation_payload hello_request))) = 1 \<and>
   makeRequest (example_config 3) world_rejecting_url
      ''gpt2'' (generation_payload hello_request) =
     (Inl (Wrap ''failed to create request'' ''invalid URL escape''), []) \<and>
   makeRequest (example_config 3) world_failing_marshal
      ''gpt2'' (generation_payload hello_request) =
     (Inl (Wrap ''failed to marshal request'' ''json: unsupported type''), [])"
proof -
  let ?cfg = "example_config 3"
  let ?w = "example_world upstream_always_500 (caller_cancelling_at 1)"
  let ?rq = "the_request ?cfg (BaseURL ?cfg @ ''/models/'' @ ''gpt2'') ''Hello''"
  have first: "retried ?w ?rq 0"
    by (simp add: retried_def example_world_def upstream_always_500_def
        attempt_step_of_def)
  have earlier: "\<forall>j\<in>{0..<1}. retried ?w ?rq j"
  proof
    fix j :: int assume "j \<in> {0..<1}"
    then have "j = 0" by simp
    with first show "retried ?w ?rq j" by simp
  qed
  have cancelled: "ctx_done ?w 1 = Some Canceled"
    by (simp add: example_world_def caller_cancelling_at_def)
  have k: "(0::int) < 1" "1 \<le> RetryAttempts ?cfg"
    by (simp_all add: example_config_simps)
  note cancel = makeRequest_cancelled_run
    [OF example_marshal example_url refl k earlier cancelled]
  have no_url: "makeRequest ?cfg world_rejecting_url ''gpt2'' (generation_payload hello_request) =
      (Inl (Wrap ''failed to create request'' ''invalid URL escape''), [])"
    by (simp add: makeRequest_def NewRequestWithContext_def world_rejecting_url_def
        example_world_def)
  have no_body: "makeRequest ?cfg world_failing_marshal ''gpt2''
        (generation_payload hello_request) =
      (Inl (Wrap ''failed to marshal request'' ''json: unsupported type''), [])"
    by (simp add: makeRequest_def world_failing_marshal_def example_world_def)
  show ?thesis
    using cancel no_url no_body
    by (simp add: example_config_simps upstream_always_500_def run_events_def
        attempt_events_def upto_rec1 requests_sent_def)
qed



theorem makeRequest_cancelled_during_wait_witness:
  "makeRequest (example_config 3)
      (example_world upstream_always_500 (caller_cancelling_at 1))
      ''gpt2'' (generation_payload hello_request) =
     (Inl (Ctx Canceled),
      [HTTPDo 0 (the_request (example_config 3)
                   ''https://api-inference.huggingface.co/models/gpt2'' ''Hello''),
       ContextDone Canceled]) \<and>
   requests_sent (snd (makeRequest (example_config 3)
      (example_world upstream_always_500 (caller_cancelling_at 1))
      ''gpt2'' (generation_payload hello_request))) = 1 \<and>
   fst (makeRequest (example_config 3) (example_world upstream_always_500 patient_caller)
      ''gpt2'' (generation_payload hello_request)) =
     Inl (APIErrorBody 500 ''Internal Server Error'') \<and>
   fst (makeRequest (example_config 3) (example_world upstream_always_500 patient_caller)
      ''gpt2'' (generation_payload hello_request)) \<noteq> Inl (Ctx Canceled) \<and>
   ContextDone Canceled \<notin> set (snd (makeRequest (example_config 3)
      (example_world upstream_always_500 patient_caller)
      ''gpt2'' (generation_payload hello_request)))"
proof -
  let ?cfg = "example_config 3"
  let ?w = "example_world upstream_always_500 (caller_cancelling_at 1)"
  let ?v = "example_world upstream_always_500 patient_caller"
  let ?rq = "the_request ?cfg (BaseURL ?cfg @ ''/models/'' @ ''gpt2'') ''Hello''"
  have first: "retried ?w ?rq 0"
    by (simp add: retried_def example_world_def upstream_always_500_def
        attempt_step_of_def)
  have earlier: "\<forall>j\<in>{0..<1}. retried ?w ?rq j"
  proof
    fix j :: int assume "j \<in> {0..<1}"
    then have "j = 0" by simp
    with first show "retried ?w ?rq j" by simp
  qed
  have cancelled: "ctx_done ?w 1 = Some Canceled"
    by (simp add: example_world_def caller_cancelling_at_def)
  have k: "(0::int) < 1" "1 \<le> RetryAttempts ?cfg"
    by (simp_all add: example_config_simps)
  note cancel = makeRequest_cancelled_during_wait
    [OF example_marshal example_url refl k earlier cancelled]
  have patient: "\<forall>j\<in>{1..RetryAttempts ?cfg}. ctx_done ?v j = None"
    by (simp add: example_world_def patient_caller_def)
  have failing: "\<forall>j\<in>{0..RetryAttempts ?cfg}. retryable_failure (Do ?v j ?rq)"
    by (simp add: example_world_def upstream_always_500_def)
  have exhausted:
    "fst (makeRequest ?cfg ?v ''gpt2'' (generation_payload hello_request)) =
       Inl (observed_error ?v (Do ?v (RetryAttempts ?cfg) ?rq)) \<and>
     fst (makeRequest ?cfg ?v ''gpt2'' (generation_payload hello_request)) \<noteq>
       Inl (Ctx Canceled)"
    using cancel [THEN conjunct2, THEN conjunct2, THEN conjunct1, rule_format,
        of ?v "''Hello''"] example_marshal [of upstream_always_500 patient_caller]
      example_url [of upstream_always_500 patient_caller] patient failing
    by blast
  have observed: "observed_error ?v (Do ?v j rq) =
                  APIErrorBody 500 ''Internal Server Error''" for j rq
    by (simp add: observed_error_def example_world_def upstream_always_500_def
        example_error_def)
  have never: "ContextDone Canceled \<notin> set (snd (makeRequest ?cfg ?v ''gpt2''
                 (generation_payload hello_request)))"
    using cancel [THEN conjunct2, THEN conjunct2, THEN conjunct2, rule_format,
        of ?cfg ?v "''gpt2''" "generation_payload hello_request"] exhausted
    by blast
  show ?thesis
    using cancel [THEN conjunct1] cancel [THEN conjunct2, THEN conjunct1] exhausted never
    by (simp add: observed example_config_simps run_events_def attempt_events_def
        upto_rec1)
qed

theorem AnalyzeSentiment_first_maximum_witness:
  \<open>fst (AnalyzeSentiment (example_config 3)
      (example_world
         (upstream_200
            ''[[{"label":"neg","score":0.2},{"label":"neu","score":0.5},{"label":"pos","score":0.5}]]'')
         patient_caller)
      ''so so'') =
   Inr \<lparr>SentimentResponse_Text = ''so so'', Sentiment = ''neu'',
        SentimentResponse_Score = 1 / 2, Confidence = 1 / 2\<rparr>\<close>
proof -
  let ?cfg = "example_config 3"
  let ?body = \<open>''[[{"label":"neg","score":0.2},{"label":"neu","score":0.5},{"label":"pos","score":0.5}]]''\<close>
  let ?w = "example_world (upstream_200 ?body) patient_caller"
  let ?inner = "[\<lparr>GeneratedText = [], Score = 1 / 5, Label = ''neg'', SummaryText = []\<rparr>,
                 \<lparr>GeneratedText = [], Score = 1 / 2, Label = ''neu'', SummaryText = []\<rparr>,
                 \<lparr>GeneratedText = [], Score = 1 / 2, Label = ''pos'', SummaryText = []\<rparr>]"
  have request: "fst (makeRequest ?cfg ?w ''cardiffnlp/twitter-roberta-base-sentiment-latest''
                   (sentiment_payload ''so so'')) = Inr ?body"
    by (simp add: makeRequest_example_200)
  have parse: "Unmarshal_nested ?w ?body = Inr (?inner # [])"
    by (simp add: example_world_def example_nested_def)
  have nonempty: "?inner \<noteq> []"
    by simp
  from AnalyzeSentiment_first_maximum [OF request parse nonempty]
  obtain i where fm: "first_max ?inner i"
    and result: "fst (AnalyzeSentiment ?cfg ?w ''so so'') =
       Inr \<lparr>SentimentResponse_Text = ''so so'', Sentiment = Label (?inner ! i),
            SentimentResponse_Score = Score (?inner ! i),
            Confidence = Score (?inner ! i)\<rparr>"
    by blast
  have "i < 3" and le: "\<forall>j<3. Score (?inner ! j) \<le> Score (?inner ! i)"
    and less: "\<forall>j<i. Score (?inner ! j) < Score (?inner ! i)"
    using fm by (simp_all add: first_max_def)
  then consider "i = 0" | "i = 1" | "i = 2"
    by linarith
  then have "i = 1"
  proof cases
    case 1
    with le [rule_format, of 1] show ?thesis by simp
  next
    case 2
    then show ?thesis .
  next
    case 3
    with less [rule_format, of 1] show ?thesis by simp
  qed
  with result show ?thesis by simp
qed

lemma GenerateText_example_hello:
  assumes "0 \<le> n" and "example_responses body = Inr hfResponses" and "hfResponses \<noteq> []"
  shows "fst (GenerateText (example_config n) (example_world (upstream_200 body) patient_caller)
            hello_request) =
         Inr \<lparr>AIResponse_ID = ''req-1'', AIResponse_Model = ''gpt2'',
              Choices = fst (choices_loop ''Hello'' hfResponses 0
                               (replicate (length hfResponses) zero_Choice) 0),
              Usage = \<lparr>PromptTokens = 1,
                       CompletionTokens =
                         snd (choices_loop ''Hello'' hfResponses 0
                                (replicate (length hfResponses) zero_Choice) 0) - 1,
                       TotalTokens =
                         snd (choices_loop ''Hello'' hfResponses 0
                                (replicate (length hfResponses) zero_Choice) 0)\<rparr>,
              GeneratedAt = 1005000000, ProcessingMs = 2\<rparr>"
proof -
  have "Validate hello_request = None"
    by (simp add: Validate_def hello_request_def example_request_def)
  moreover have "Unmarshal_responses (example_world (upstream_200 body) patient_caller) body =
                 Inr hfResponses"
    using assms(2) by (simp add: example_world_def)
  moreover have "now (example_world (upstream_200 body) patient_caller) 2 = 1005000000"
    "(now (example_world (upstream_200 body) patient_caller) 1 -
      now (example_world (upstream_200 body) patient_caller) 0) sdiv 1000000 = 2"
    by (simp_all add: example_world_def signed_divide_int_def)
  moreover have "Prompt hello_request = ''Hello''" "ID hello_request = ''req-1''"
    "Model hello_request = ''gpt2''"
    by (simp_all add: hello_request_def example_request_def)
  ultimately show ?thesis
    using assms(1,3)
    by (simp add: GenerateText_def makeRequest_example_200 emit_def split: prod.splits)
qed

theorem GenerateText_choices_counterexample:
  \<open>choice_texts
     (fst (GenerateText (example_config 3)
        (example_world (upstream_200 ''[{"generated_text":"Hello world"}]'') patient_caller)
        hello_request)) = ['' world''] \<and>
   choice_texts
     (fst (GenerateText (example_config 3)
        (example_world (upstream_200 ''[{"generated_text":"Hello world"}]'') patient_caller)
        hello_request)) \<noteq> [''world'']\<close>
proof -
  have decode: \<open>example_responses ''[{"generated_text":"Hello world"}]'' =
      Inr [\<lparr>GeneratedText = ''Hello world'', Score = 0, Label = [], SummaryText = []\<rparr>]\<close>
    by (simp add: example_responses_def)
  from GenerateText_example_hello [OF _ decode, of 3] show ?thesis
    by (simp add: choice_texts_def zero_Choice_def TrimPrefix_def HasPrefix_def Let_def)
qed

theorem GenerateText_choices_witness:
  \<open>\<exists>resp. fst (GenerateText (example_config 3)
             (example_world
                (upstream_200 ''[{"generated_text":"HelloHello!"},{"generated_text":"Bye"}]'')
                patient_caller)
             hello_request) = Inr resp \<and>
          length (Choices resp) = 2 \<and>
          Choices resp ! 0 =
            \<lparr>Index = 0, Text = ''Hello!'', FinishReason = ''stop'', LogProbs = None\<rparr> \<and>
          Choices resp ! 1 =
            \<lparr>Index = 1, Text = ''Bye'', FinishReason = ''stop'', LogProbs = None\<rparr>\<close>
proof -
  let ?cfg = "example_config 3"
  let ?body = \<open>''[{"generated_text":"HelloHello!"},{"generated_text":"Bye"}]''\<close>
  let ?w = "example_world (upstream_200 ?body) patient_caller"
  let ?rs = "[\<lparr>GeneratedText = ''HelloHello!'', Score = 0, Label = [], SummaryText = []\<rparr>,
              \<lparr>GeneratedText = ''Bye'', Score = 0, Label = [], SummaryText = []\<rparr>]"
  have decode: "example_responses ?body = Inr ?rs"
    by (simp add: example_responses_def)
  obtain resp where resp: "fst (GenerateText ?cfg ?w hello_request) = Inr resp"
    using GenerateText_example_hello [OF _ decode] by simp
  from GenerateText_choices [OF resp] obtain response hfResponses where
    request: "fst (makeRequest ?cfg ?w (Model hello_request) (generation_payload hello_request)) =
              Inr response"
    and parse: "Unmarshal_responses ?w response = Inr hfResponses"
    and len: "length (Choices resp) = length hfResponses"
    and nth: "\<forall>i<length hfResponses.
                Choices resp ! i =
                  \<lparr>Index = int i,
                   Text = TrimPrefix (GeneratedText (hfResponses ! i)) (Prompt hello_request),
                   FinishReason = ''stop'', LogProbs = None\<rparr>"
    by blast
  have "response = ?body"
    using request by (simp add: makeRequest_example_200)
  then have rs: "hfResponses = ?rs"
    using parse decode by (simp add: example_world_def)
  have prompt: "Prompt hello_request = ''Hello''"
    by (simp add: hello_request_def example_request_def)
  have "Choices resp ! 0 =
          \<lparr>Index = 0, Text = ''Hello!'', FinishReason = ''stop'', LogProbs = None\<rparr>"
    using nth [rule_format, of 0] by (simp add: rs prompt TrimPrefix_def HasPrefix_def)
  moreover have "Choices resp ! 1 =
          \<lparr>Index = 1, Text = ''Bye'', FinishReason = ''stop'', LogProbs = None\<rparr>"
    using nth [rule_format, of 1] by (simp add: rs prompt TrimPrefix_def HasPrefix_def)
  moreover have "length (Choices resp) = 2"
    using len by (simp add: rs)
  ultimately show ?thesis
    using resp by blast
qed

theorem GenerateText_usage_witness:
  \<open>\<exists>resp. fst (GenerateText (example_config 3)
             (example_world
                (upstream_200 ''[{"generated_text":"HelloHello!"},{"generated_text":"Bye"}]'')
                patient_caller)
             hello_request) = Inr resp \<and>
          map Text (Choices resp) = [''Hello!'', ''Bye''] \<and>
          PromptTokens (Usage resp) = 1 \<and> CompletionTokens (Usage resp) = 3 \<and>
          TotalTokens (Usage resp) = 4\<close>
proof -
  let ?cfg = "example_config 3"
  let ?body = \<open>''[{"generated_text":"HelloHello!"},{"generated_text":"Bye"}]''\<close>
  let ?w = "example_world (upstream_200 ?body) patient_caller"
  let ?rs = "[\<lparr>GeneratedText = ''HelloHello!'', Score = 0, Label = [], SummaryText = []\<rparr>,
              \<lparr>GeneratedText = ''Bye'', Score = 0, Label = [], SummaryText = []\<rparr>]"
  have decode: "example_responses ?body = Inr ?rs"
    by (simp add: example_responses_def)
  obtain resp where resp: "fst (GenerateText ?cfg ?w hello_request) = Inr resp"
    and texts: "map Text (Choices resp) = [''Hello!'', ''Bye'']"
    using GenerateText_example_hello [OF _ decode]
    by (simp add: zero_Choice_def TrimPrefix_def HasPrefix_def Let_def)
  have prompt: "Prompt hello_request = ''Hello''"
    by (simp add: hello_request_def example_request_def)
  from GenerateText_usage [OF resp]
  have "TotalTokens (Usage resp) = PromptTokens (Usage resp) + CompletionTokens (Usage resp)"
    and "PromptTokens (Usage resp) = 1"
    and "TotalTokens (Usage resp) =
           (\<Sum>t\<leftarrow>map Text (Choices resp). (5 + int (length t)) div 4)"
    by (simp_all add: prompt comp_def)
  then show ?thesis
    using resp texts by simp
qed


theorem SummarizeText_first_summary_witness:
  \<open>fst (SummarizeText (example_config 3)
      (example_world
         (upstream_200 ''[{"summary_text":"Short"},{"summary_text":"Another one"}]'')
         patient_caller)
      ''This is a long text.'' 40) =
   Inr \<lparr>OriginalText = ''This is a long text.'', Summary = ''Short'',
        Compression = Finite (1 / 4)\<rparr>\<close>
proof -
  let ?cfg = "example_config 3"
  let ?body = \<open>''[{"summary_text":"Short"},{"summary_text":"Another one"}]''\<close>
  let ?w = "example_world (upstream_200 ?body) patient_caller"
  let ?first = "\<lparr>GeneratedText = [], Score = 0, Label = [], SummaryText = ''Short''\<rparr>"
  let ?rest = "[\<lparr>GeneratedText = [], Score = 0, Label = [], SummaryText = ''Another one''\<rparr>]"
  have request: "fst (makeRequest ?cfg ?w ''facebook/bart-large-cnn''
                   (summarization_payload ''This is a long text.'' 40)) = Inr ?body"
    by (simp add: makeRequest_example_200)
  have parse: "Unmarshal_responses ?w ?body = Inr (?first # ?rest)"
    by (simp add: example_world_def example_responses_def)
  have nonempty: "0 < length ''This is a long text.''"
    by simp
  have round: "round64 ?w = (\<lambda>q. q)"
    by (simp add: example_world_def)
  from SummarizeText_first_summary [OF request parse nonempty] show ?thesis
    by (simp add: round)
qed

theorem generation_payload_overlay_counterexample:
  "HuggingFaceRequest_Parameters (generation_payload hello_request) \<noteq>
     spec_generation_parameters hello_request \<and>
   HuggingFaceRequest_Parameters (generation_payload hello_request) ''wait_for_model'' = None \<and>
   spec_generation_parameters hello_request ''wait_for_model'' = Some (ABool True) \<and>
   Parameters overriding_request ''wait_for_model'' = Some (ABool False) \<and>
   Options (generation_payload overriding_request) ''wait_for_model'' = Some (ABool True)"
proof -
  have here: "HuggingFaceRequest_Parameters (generation_payload hello_request)
                ''wait_for_model'' = None"
    by (simp add: generation_payload_def hello_request_def example_request_def)
  have there: "spec_generation_parameters hello_request ''wait_for_model'' = Some (ABool True)"
    by (simp add: spec_generation_parameters_def hello_request_def example_request_def)
  have "HuggingFaceRequest_Parameters (generation_payload hello_request) \<noteq>
        spec_generation_parameters hello_request"
    using here there by (metis option.distinct(1))
  moreover have "Parameters overriding_request ''wait_for_model'' = Some (ABool False)"
    by (simp add: overriding_request_def example_request_def)
  moreover have "Options (generation_payload overriding_request) ''wait_for_model'' =
                 Some (ABool True)"
    by (simp add: generation_payload_def)
  ultimately show ?thesis
    using here there by simp
qed

theorem generation_payload_overlay_witness:
  "HuggingFaceRequest_Parameters (generation_payload overriding_request) ''temperature'' =
     Some (AFloat (Finite (1 / 5))) \<and>
   HuggingFaceRequest_Parameters (generation_payload overriding_request) ''wait_for_model'' =
     Some (ABool False) \<and>
   HuggingFaceRequest_Parameters (generation_payload overriding_request) ''top_p'' =
     Some (AFloat (Finite (9 / 10))) \<and>
   Options (generation_payload overriding_request) ''wait_for_model'' = Some (ABool True)"
proof -
  have temperature: "Parameters overriding_request ''temperature'' = Some (AFloat (Finite (1 / 5)))"
    and wait: "Parameters overriding_request ''wait_for_model'' = Some (ABool False)"
    and top_p: "Parameters overriding_request ''top_p'' = None"
      "TopP overriding_request = Finite (9 / 10)"
    by (simp_all add: overriding_request_def example_request_def)
  from generation_payload_overlay [where req = overriding_request] show ?thesis
    using temperature wait top_p by (simp add: map_add_def)
qed

end
